theory Spec2Isabelle
  imports Main
begin

section \<open>Values, exceptions and outcomes\<close>

text \<open>
  The module under verification is \<^verbatim>\<open>autogenstudio/chatmanager.py\<close>. It holds two
  classes: \<^verbatim>\<open>AutoGenChatManager\<close> (the task dispatcher) and
  \<^verbatim>\<open>WebSocketConnectionManager\<close> (the connection registry).

  Python values that travel through the module (message payloads, trace entries, the
  summary method) are JSON-like; a \<^verbatim>\<open>dict\<close> is an association list in insertion
  order.
\<close>

datatype pyval =
    PNone
  | PBool bool
  | PInt int
  | PStr string
  | PList "pyval list"
  | PDict "(string \<times> pyval) list"

text \<open>
  The exceptions the module raises, catches or lets through. \<open>NonException\<close> stands
  for the subclasses of \<^verbatim>\<open>BaseException\<close> that are not subclasses of
  \<^verbatim>\<open>Exception\<close> (\<^verbatim>\<open>asyncio.CancelledError\<close>, \<^verbatim>\<open>KeyboardInterrupt\<close>):
  a handler \<^verbatim>\<open>except Exception\<close> does not catch them.
\<close>

datatype exn =
    WebSocketDisconnect
  | ConnectionClosedOK
  | TypeError
  | KeyError
  | ValueError string
  | QueueFull
  | OtherException string
  | NonException string

fun is_Exception :: "exn \<Rightarrow> bool" where
  "is_Exception (NonException _) = False"
| "is_Exception _ = True"

text \<open>
  A call either returns a value, raises, or (for a coroutine run on its own) stays
  suspended for ever at an \<^verbatim>\<open>await\<close> that nobody resumes.
\<close>

datatype 'a outcome = Returned 'a | Raised exn | Suspended

section \<open>The connection registry\<close>

text \<open>
  A WebSocket object is identified by reference: the list comprehension of
  \<^verbatim>\<open>disconnect\<close> compares \<^verbatim>\<open>conn[0] != websocket\<close> on objects that do not
  override equality. A handle is therefore a name.
\<close>

type_synonym handle = nat

text \<open>
  Two enumerations meet in the state test of \<^verbatim>\<open>broadcast\<close>. The sockets are
  \<^verbatim>\<open>fastapi.WebSocket\<close> objects, whose \<^verbatim>\<open>client_state\<close> is a member of
  starlette's \<^verbatim>\<open>WebSocketState\<close> (a plain \<^verbatim>\<open>Enum\<close>); the test compares it with
  \<^verbatim>\<open>websockets.protocol.State.OPEN\<close>, a member of another class (an
  \<^verbatim>\<open>IntEnum\<close>). A member of a plain \<^verbatim>\<open>Enum\<close> equals only itself, so an enum
  value is its class together with its member, and \<^verbatim>\<open>==\<close> is equality of both.
\<close>

datatype websocket_state = WS_CONNECTING | WS_CONNECTED | WS_DISCONNECTED | WS_RESPONSE

datatype protocol_state = CONNECTING | OPEN | CLOSING | CLOSED

datatype py_enum = WebSocketState websocket_state | State protocol_state

text \<open>
  The peer side of every socket is outside the module. Its behaviour during one run is
  a parameter: whether the accept handshake of a handle raises, whether
  \<^verbatim>\<open>send_json\<close> of a payload on a handle raises, and the state a handle reports.
\<close>

record transport =
  accept :: "handle \<Rightarrow> exn option"
  send_json :: "handle \<Rightarrow> pyval \<Rightarrow> exn option"
  client_state :: "handle \<Rightarrow> websocket_state"

text \<open>
  The manager object and the effects it has had on the sockets.
  \<open>active_connections_lock\<close> is \<open>None\<close> when the constructor was given no lock
  (its default), \<open>Some True\<close> for an \<^verbatim>\<open>asyncio.Lock\<close> that is held and
  \<open>Some False\<close> for one that is free. \<open>handshakes\<close> lists the handles whose
  \<^verbatim>\<open>accept()\<close> completed, \<open>frames\<close> the payloads \<^verbatim>\<open>send_json\<close> wrote, both in
  order. Console output (\<^verbatim>\<open>print\<close>) is not modelled.
\<close>

record manager =
  active_connections :: "(handle \<times> string) list"
  active_connections_lock :: "bool option"
  handshakes :: "handle list"
  frames :: "(handle \<times> pyval) list"

text \<open>\<^verbatim>\<open>__init__\<close>: a missing connection list becomes the empty list; a missing lock
  stays \<open>None\<close>.\<close>

definition init_manager :: "(handle \<times> string) list option \<Rightarrow> bool option \<Rightarrow> manager" where
  "init_manager conns lk =
     \<lparr> active_connections = (case conns of None \<Rightarrow> [] | Some cs \<Rightarrow> cs),
       active_connections_lock = lk,
       handshakes = [],
       frames = [] \<rparr>"

text \<open>
  \<^verbatim>\<open>async with self.active_connections_lock: body\<close>. Entering the block on
  \<open>None\<close> raises (\<open>None\<close> is no asynchronous context manager); on a held lock the
  coroutine waits for a release that, in a run of this coroutine alone, never comes;
  on a free lock it takes the lock, runs the body and releases the lock, also when the
  body raises.
\<close>

definition with_lock :: "(manager \<Rightarrow> 'a outcome \<times> manager) \<Rightarrow> manager \<Rightarrow> 'a outcome \<times> manager" where
  "with_lock body m =
     (case active_connections_lock m of
        None \<Rightarrow> (Raised TypeError, m)
      | Some True \<Rightarrow> (Suspended, m)
      | Some False \<Rightarrow>
          (case body (m\<lparr>active_connections_lock := Some True\<rparr>) of
             (Suspended, m') \<Rightarrow> (Suspended, m')
           | (r, m') \<Rightarrow> (r, m'\<lparr>active_connections_lock := Some False\<rparr>)))"

definition connect :: "transport \<Rightarrow> handle \<Rightarrow> string \<Rightarrow> manager \<Rightarrow> unit outcome \<times> manager" where
  "connect tr websocket client_id m =
     (case accept tr websocket of
        Some e \<Rightarrow> (Raised e, m)
      | None \<Rightarrow>
          with_lock
            (\<lambda>m'. (Returned (),
                   m'\<lparr>active_connections := active_connections m' @ [(websocket, client_id)]\<rparr>))
            (m\<lparr>handshakes := handshakes m @ [websocket]\<rparr>))"

text \<open>
  \<^verbatim>\<open>disconnect\<close> rebuilds the list without the entries of the handle. The
  \<^verbatim>\<open>except ValueError\<close> around the comprehension guards nothing that can raise it
  and has no branch here.
\<close>

definition disconnect :: "handle \<Rightarrow> manager \<Rightarrow> unit outcome \<times> manager" where
  "disconnect websocket m =
     with_lock
       (\<lambda>m'. (Returned (),
              m'\<lparr>active_connections :=
                    filter (\<lambda>conn. fst conn \<noteq> websocket) (active_connections m')\<rparr>))
       m"

text \<open>\<^verbatim>\<open>disconnect_all\<close> walks a copy of the list; an exception of a
  \<^verbatim>\<open>disconnect\<close> ends the walk.\<close>

fun disconnect_each :: "(handle \<times> string) list \<Rightarrow> manager \<Rightarrow> unit outcome \<times> manager" where
  "disconnect_each [] m = (Returned (), m)"
| "disconnect_each ((connection, _) # rest) m =
     (case disconnect connection m of
        (Returned _, m') \<Rightarrow> disconnect_each rest m'
      | (r, m') \<Rightarrow> (r, m'))"

definition disconnect_all :: "manager \<Rightarrow> unit outcome \<times> manager" where
  "disconnect_all m = disconnect_each (active_connections m) m"

text \<open>The write itself: \<^verbatim>\<open>await websocket.send_json(message)\<close>.\<close>

definition transmit :: "transport \<Rightarrow> pyval \<Rightarrow> handle \<Rightarrow> manager \<Rightarrow> unit outcome \<times> manager" where
  "transmit tr message websocket m =
     (case send_json tr websocket message of
        Some e \<Rightarrow> (Raised e, m)
      | None \<Rightarrow> (Returned (), m\<lparr>frames := frames m @ [(websocket, message)]\<rparr>))"

text \<open>
  \<^verbatim>\<open>send_message\<close>: the \<^verbatim>\<open>try\<close> encloses the locked write; the three handlers
  (\<^verbatim>\<open>WebSocketDisconnect\<close>, \<^verbatim>\<open>ConnectionClosedOK\<close>, \<^verbatim>\<open>Exception\<close>) are tried in
  this order and each awaits \<^verbatim>\<open>disconnect\<close>, after the lock has been released.
\<close>

definition send_message :: "transport \<Rightarrow> pyval \<Rightarrow> handle \<Rightarrow> manager \<Rightarrow> unit outcome \<times> manager" where
  "send_message tr message websocket m =
     (case with_lock (transmit tr message websocket) m of
        (Raised e, m') \<Rightarrow>
          (if e = WebSocketDisconnect then disconnect websocket m'
           else if e = ConnectionClosedOK then disconnect websocket m'
           else if is_Exception e then disconnect websocket m'
           else (Raised e, m'))
      | (r, m') \<Rightarrow> (r, m'))"

text \<open>
  One turn of the loop of \<^verbatim>\<open>broadcast\<close>: the state test
  \<^verbatim>\<open>connection.client_state == websockets.protocol.State.OPEN\<close>, the send or the
  disconnect, and the handler for the two close exceptions around both.
\<close>

definition broadcast_step :: "transport \<Rightarrow> pyval \<Rightarrow> handle \<Rightarrow> manager \<Rightarrow> unit outcome \<times> manager" where
  "broadcast_step tr message_dict connection m =
     (case (if WebSocketState (client_state tr connection) = State OPEN
            then send_message tr message_dict connection m
            else disconnect connection m) of
        (Raised e, m') \<Rightarrow>
          (if e = WebSocketDisconnect \<or> e = ConnectionClosedOK
           then disconnect connection m'
           else (Raised e, m'))
      | (r, m') \<Rightarrow> (r, m'))"

fun broadcast_each ::
  "transport \<Rightarrow> pyval \<Rightarrow> (handle \<times> string) list \<Rightarrow> manager \<Rightarrow> unit outcome \<times> manager" where
  "broadcast_each tr message_dict [] m = (Returned (), m)"
| "broadcast_each tr message_dict ((connection, _) # rest) m =
     (case broadcast_step tr message_dict connection m of
        (Returned _, m') \<Rightarrow> broadcast_each tr message_dict rest m'
      | (r, m') \<Rightarrow> (r, m'))"

text \<open>\<^verbatim>\<open>broadcast\<close> wraps the payload under the key \<^verbatim>\<open>"message"\<close> and walks a copy
  of the list.\<close>

definition broadcast :: "transport \<Rightarrow> pyval \<Rightarrow> manager \<Rightarrow> unit outcome \<times> manager" where
  "broadcast tr message m =
     broadcast_each tr (PDict [(''message'', message)]) (active_connections m) m"

text \<open>
  A run of calls made on the registry one after the other, each from the state the
  previous one left (a caller that catches an exception goes on with the next call).
  \<open>run_calls\<close> lists the outcome and the state after every call.
\<close>

datatype registry_call = Connect handle string | Disconnect handle

fun call :: "transport \<Rightarrow> registry_call \<Rightarrow> manager \<Rightarrow> unit outcome \<times> manager" where
  "call tr (Connect websocket client_id) m = connect tr websocket client_id m"
| "call tr (Disconnect websocket) m = disconnect websocket m"

fun run_calls :: "transport \<Rightarrow> registry_call list \<Rightarrow> manager \<Rightarrow> (unit outcome \<times> manager) list" where
  "run_calls tr [] m = []"
| "run_calls tr (c # cs) m = call tr c m # run_calls tr cs (snd (call tr c m))"

text \<open>No call connects a handle that the registry holds at that moment.\<close>

fun connects_fresh :: "transport \<Rightarrow> registry_call list \<Rightarrow> manager \<Rightarrow> bool" where
  "connects_fresh tr [] m = True"
| "connects_fresh tr (c # cs) m =
     ((case c of
         Connect websocket _ \<Rightarrow> websocket \<notin> set (map fst (active_connections m))
       | Disconnect _ \<Rightarrow> True)
      \<and> connects_fresh tr cs (snd (call tr c m)))"

text \<open>What a call does when nothing but its own handshake can fail.\<close>

fun expected_outcome :: "transport \<Rightarrow> registry_call \<Rightarrow> unit outcome" where
  "expected_outcome tr (Connect websocket _) =
     (case accept tr websocket of None \<Rightarrow> Returned () | Some e \<Rightarrow> Raised e)"
| "expected_outcome tr (Disconnect _) = Returned ()"

text \<open>
  The sweep of \<^verbatim>\<open>disconnect_all\<close> with other callers in between: before the
  sweep's \<open>k\<close>-th \<^verbatim>\<open>disconnect\<close>, the handles of the \<open>k\<close>-th list of \<open>others\<close>
  are disconnected by calls of other coroutines, each run to its end (no list: no such
  call).
\<close>

definition disconnect_by_others :: "handle list \<Rightarrow> manager \<Rightarrow> manager" where
  "disconnect_by_others hs m = foldl (\<lambda>m' h. snd (disconnect h m')) m hs"

fun disconnect_each_among ::
  "handle list list \<Rightarrow> (handle \<times> string) list \<Rightarrow> manager \<Rightarrow> unit outcome \<times> manager" where
  "disconnect_each_among others [] m = (Returned (), m)"
| "disconnect_each_among others ((connection, _) # rest) m =
     (case disconnect connection
             (disconnect_by_others (case others of [] \<Rightarrow> [] | hs # _ \<Rightarrow> hs) m) of
        (Returned _, m') \<Rightarrow> disconnect_each_among (tl others) rest m'
      | (r, m') \<Rightarrow> (r, m'))"

definition disconnect_all_among :: "handle list list \<Rightarrow> manager \<Rightarrow> unit outcome \<times> manager" where
  "disconnect_all_among others m = disconnect_each_among others (active_connections m) m"

text \<open>A transport for examples: every socket reports itself connected but 3; the
  write on handle 2 finds the peer closed abnormally, on 4 normally, on 5 it breaks
  otherwise; the handshake of 9 fails.\<close>

definition lossy_transport :: transport where
  "lossy_transport =
     \<lparr> accept = (\<lambda>h. if h = 9 then Some (OtherException ''RuntimeError'') else None),
       send_json = (\<lambda>h _. if h = 2 then Some WebSocketDisconnect
                           else if h = 4 then Some ConnectionClosedOK
                           else if h = 5 then Some (OtherException ''BrokenPipeError'')
                           else None),
       client_state = (\<lambda>h. if h = 3 then WS_DISCONNECTED else WS_CONNECTED) \<rparr>"

text \<open>A transport on which nothing fails: every handshake and every write succeeds
  and every socket reports itself connected.\<close>

definition healthy_transport :: transport where
  "healthy_transport =
     \<lparr> accept = (\<lambda>_. None),
       send_json = (\<lambda>_ _. None),
       client_state = (\<lambda>_. WS_CONNECTED) \<rparr>"

section \<open>The task dispatcher\<close>

text \<open>
  \<^verbatim>\<open>queue.Queue\<close> of the standard library: \<open>maxsize \<le> 0\<close> is an unbounded queue;
  \<^verbatim>\<open>put_nowait\<close> never waits and raises \<^verbatim>\<open>queue.Full\<close> when a bounded queue has
  no free slot.
\<close>

record 'a py_queue =
  maxsize :: int
  items :: "'a list"

definition put_nowait :: "'a py_queue \<Rightarrow> 'a \<Rightarrow> exn + 'a py_queue" where
  "put_nowait q item =
     (if 0 < maxsize q \<and> maxsize q \<le> int (length (items q)) then Inl QueueFull
      else Inr (q\<lparr>items := items q @ [item]\<rparr>))"

text \<open>The calls that reach the external task executor (\<^verbatim>\<open>WorkflowManager\<close>).\<close>

datatype executor_call =
    New_WorkflowManager pyval "pyval list" string pyval
  | Run_WorkflowManager string

text \<open>
  The dispatcher object (its queue, \<open>None\<close> when there is none) with the effects it
  has had outside: the directories \<^verbatim>\<open>os.makedirs\<close> created and the calls made to
  the executor.
\<close>

record dispatcher =
  message_queue :: "pyval py_queue option"
  directories :: "string list"
  executor_calls :: "executor_call list"

definition send :: "pyval \<Rightarrow> dispatcher \<Rightarrow> unit outcome \<times> dispatcher" where
  "send message d =
     (case message_queue d of
        None \<Rightarrow> (Returned (), d)
      | Some q \<Rightarrow>
          (case put_nowait q message of
             Inl e \<Rightarrow> (Raised e, d)
           | Inr q' \<Rightarrow> (Returned (), d\<lparr>message_queue := Some q'\<rparr>)))"

text \<open>The fields of \<^verbatim>\<open>Message\<close>, \<^verbatim>\<open>Workflow\<close> and \<^verbatim>\<open>WorkflowManager\<close> that the module
  reads or writes; \<open>session_id\<close> is the identifier as \<^verbatim>\<open>str\<close> renders it.\<close>

record message =
  user_id :: pyval
  role :: string
  content :: pyval
  meta :: string
  session_id :: string

record workflow =
  summary_method :: pyval

record workflow_manager =
  agent_history :: "pyval list"
  receiver_client :: pyval
  connection_id :: pyval

text \<open>
  What lies outside the module, as parameters: the clock, the file system, the executor
  (which is handed the \<open>send\<close> callback and may use it as it likes), the validation of
  the workflow, and the helpers of \<^verbatim>\<open>utils\<close>.
\<close>

record collaborators =
  strftime_now :: string
  makedirs :: "string \<Rightarrow> exn option"
  new_workflow_manager :: "pyval \<Rightarrow> pyval list \<Rightarrow> string \<Rightarrow> pyval \<Rightarrow> exn + workflow_manager"
  model_validate :: "pyval \<Rightarrow> exn + workflow"
  run :: "(pyval \<Rightarrow> dispatcher \<Rightarrow> unit outcome \<times> dispatcher) \<Rightarrow> workflow_manager \<Rightarrow> string
            \<Rightarrow> dispatcher \<Rightarrow> workflow_manager outcome \<times> dispatcher"
  time_before :: int
  time_after :: int
  get_modified_files :: "int \<Rightarrow> int \<Rightarrow> string \<Rightarrow> exn + pyval"
  extract_successful_code_blocks :: "pyval list \<Rightarrow> exn + string list"
  summarize_chat_history :: "string \<Rightarrow> pyval list \<Rightarrow> pyval \<Rightarrow> exn + pyval"
  json_dumps :: "pyval \<Rightarrow> exn + string"

text \<open>\<^verbatim>\<open>d[key]\<close>: a missing key raises \<^verbatim>\<open>KeyError\<close>; a value that is no dictionary
  cannot be indexed by a string.\<close>

fun getitem :: "pyval \<Rightarrow> string \<Rightarrow> exn + pyval" where
  "getitem (PDict kvs) key = (case map_of kvs key of None \<Rightarrow> Inl KeyError | Some v \<Rightarrow> Inr v)"
| "getitem _ key = Inl TypeError"

text \<open>\<^verbatim>\<open>entry["message"]["content"]\<close> of a trace entry.\<close>

definition entry_content :: "pyval \<Rightarrow> exn + pyval" where
  "entry_content entry =
     (case getitem entry ''message'' of
        Inl e \<Rightarrow> Inl e
      | Inr msg \<Rightarrow> getitem msg ''content'')"

text \<open>\<^verbatim>\<open>sep.join(parts)\<close>.\<close>

fun join :: "string \<Rightarrow> string list \<Rightarrow> string" where
  "join sep [] = []"
| "join sep [x] = x"
| "join sep (x # y # ys) = x @ sep @ join sep (y # ys)"

text \<open>
  \<^verbatim>\<open>str.strip()\<close>: white space is cut from both ends. A character here is a
  code point below 256; among these Python counts as white space U+0009 to U+000D,
  U+001C to U+0020, U+0085 and U+00A0.
\<close>

definition is_space :: "char \<Rightarrow> bool" where
  "is_space c \<longleftrightarrow>
     c \<in> {CHR 0x09, CHR 0x0A, CHR 0x0B, CHR 0x0C, CHR 0x0D,
          CHR 0x1C, CHR 0x1D, CHR 0x1E, CHR 0x1F, CHR 0x20, CHR 0x85, CHR 0xA0}"

definition strip :: "string \<Rightarrow> string" where
  "strip s = rev (dropWhile is_space (rev (dropWhile is_space s)))"

text \<open>\<^verbatim>\<open>os.path.join\<close> on a POSIX system: an absolute component discards what
  precedes it.\<close>

definition join2 :: "string \<Rightarrow> string \<Rightarrow> string" where
  "join2 a b =
     (if b \<noteq> [] \<and> hd b = CHR ''/'' then b
      else if a = [] \<or> last a = CHR ''/'' then a @ b
      else a @ ''/'' @ b)"

definition path_join :: "string \<Rightarrow> string list \<Rightarrow> string" where
  "path_join a ps = foldl join2 a ps"

text \<open>
  Modelled from the spec: the class \<^verbatim>\<open>SocketMessage\<close> of \<^verbatim>\<open>datamodel\<close> is not part
  of the module; a status notice is a message with a kind, a data payload and the id of
  the originating connection, and \<^verbatim>\<open>.dict()\<close> gives its fields.
\<close>

definition socket_message_dict :: "string \<Rightarrow> pyval \<Rightarrow> pyval \<Rightarrow> pyval" where
  "socket_message_dict type data cid =
     PDict [(''type'', PStr type), (''data'', data), (''connection_id'', cid)]"

text \<open>
  \<^verbatim>\<open>_generate_output\<close>. Under \<^verbatim>\<open>"last"\<close> the extractor runs first, then the last
  entry is read (the empty string when the trace is empty), then the blocks are joined
  with a blank line; a joined text that is empty counts as no blocks. A value that
  matches none of the three names leaves \<open>output\<close> at its initial empty string.
\<close>

definition generate_output ::
  "collaborators \<Rightarrow> string \<Rightarrow> workflow_manager \<Rightarrow> workflow \<Rightarrow> dispatcher
     \<Rightarrow> pyval outcome \<times> dispatcher" where
  "generate_output ext message_text wm wfl d =
     (if summary_method wfl = PStr ''last'' then
        (case extract_successful_code_blocks ext (agent_history wm) of
           Inl e \<Rightarrow> (Raised e, d)
         | Inr successful_code_blocks \<Rightarrow>
             (case (if agent_history wm \<noteq> []
                    then entry_content (last (agent_history wm))
                    else Inr (PStr [])) of
                Inl e \<Rightarrow> (Raised e, d)
              | Inr last_message \<Rightarrow>
                  (let joined = join [CHR 0x0A, CHR 0x0A] successful_code_blocks
                   in if joined \<noteq> []
                      then (case last_message of
                              PStr s \<Rightarrow> (Returned (PStr (s @ [CHR 0x0A] @ joined)), d)
                            | _ \<Rightarrow> (Raised TypeError, d))
                      else (Returned last_message, d))))
      else if summary_method wfl = PStr ''llm'' then
        (case send (socket_message_dict ''agent_status''
                      (PDict [(''status'', PStr ''summarizing''),
                              (''message'', PStr ''Summarizing agent dialogue'')])
                      (connection_id wm)) d of
           (Returned _, d') \<Rightarrow>
             (case summarize_chat_history ext message_text (agent_history wm) (receiver_client wm) of
                Inl e \<Rightarrow> (Raised e, d')
              | Inr output \<Rightarrow> (Returned output, d'))
         | (Raised e, d') \<Rightarrow> (Raised e, d')
         | (Suspended, d') \<Rightarrow> (Suspended, d'))
      else if summary_method wfl = PStr ''none'' then (Returned (PStr []), d)
      else (Returned (PStr []), d))"

text \<open>
  \<^verbatim>\<open>chat\<close>. The working directory is made first, the workflow is tested second;
  only then is the executor constructed and run. \<open>workflow\<close> is \<open>PNone\<close> when none
  was supplied; \<open>user_dir\<close> is \<open>None\<close> when none was supplied, and joining a path to
  \<open>None\<close> raises.
\<close>

definition chat ::
  "collaborators \<Rightarrow> message \<Rightarrow> pyval list \<Rightarrow> pyval \<Rightarrow> pyval \<Rightarrow> string option \<Rightarrow> dispatcher
     \<Rightarrow> message outcome \<times> dispatcher" where
  "chat ext msg history wflow cid user_dir d =
     (case user_dir of
        None \<Rightarrow> (Raised TypeError, d)
      | Some ud \<Rightarrow>
     (let work_dir = path_join ud [session_id msg, strftime_now ext] in
      case makedirs ext work_dir of
        Some e \<Rightarrow> (Raised e, d)
      | None \<Rightarrow>
     (let d1 = d\<lparr>directories := directories d @ [work_dir]\<rparr> in
      if wflow = PNone then (Raised (ValueError ''Workflow must be specified''), d1)
      else
     (let d2 = d1\<lparr>executor_calls :=
                    executor_calls d1 @ [New_WorkflowManager wflow history work_dir cid]\<rparr> in
      case new_workflow_manager ext wflow history work_dir cid of
        Inl e \<Rightarrow> (Raised e, d2)
      | Inr wm \<Rightarrow>
     (case model_validate ext wflow of
        Inl e \<Rightarrow> (Raised e, d2)
      | Inr wfl \<Rightarrow>
     (case content msg of
        PStr text \<Rightarrow>
          (let message_text = strip text;
               d3 = d2\<lparr>executor_calls := executor_calls d2 @ [Run_WorkflowManager message_text]\<rparr>
           in case run ext send wm message_text d3 of
                (Returned wm', d4) \<Rightarrow>
                  (case get_modified_files ext (time_before ext) (time_after ext) work_dir of
                     Inl e \<Rightarrow> (Raised e, d4)
                   | Inr files \<Rightarrow>
                       (case generate_output ext message_text wm' wfl d4 of
                          (Returned output, d5) \<Rightarrow>
                            (case json_dumps ext
                                    (PDict [(''messages'', PList (agent_history wm')),
                                            (''summary_method'', summary_method wfl),
                                            (''time'', PInt (time_after ext - time_before ext)),
                                            (''files'', files)]) of
                               Inl e \<Rightarrow> (Raised e, d5)
                             | Inr m \<Rightarrow>
                                 (Returned \<lparr> user_id = user_id msg, role = ''assistant'',
                                             content = output, meta = m,
                                             session_id = session_id msg \<rparr>, d5))
                        | (Raised e, d5) \<Rightarrow> (Raised e, d5)
                        | (Suspended, d5) \<Rightarrow> (Suspended, d5)))
              | (Raised e, d4) \<Rightarrow> (Raised e, d4)
              | (Suspended, d4) \<Rightarrow> (Suspended, d4))
      | _ \<Rightarrow> (Raised (OtherException ''AttributeError''), d2)))))))"

text \<open>Collaborators for examples: a file system that makes every directory, an
  executor that answers with a trace of one entry, helpers that find nothing.\<close>

definition plain_collaborators :: collaborators where
  "plain_collaborators =
     \<lparr> strftime_now = ''20240101_00-00-00'',
       makedirs = (\<lambda>_. None),
       new_workflow_manager =
         (\<lambda>_ history _ cid. Inr \<lparr> agent_history = history, receiver_client = PNone,
                                  connection_id = cid \<rparr>),
       model_validate = (\<lambda>_. Inr \<lparr> summary_method = PStr ''last'' \<rparr>),
       run = (\<lambda>_ wm _ d.
                (Returned (wm\<lparr>agent_history :=
                                 [PDict [(''message'', PDict [(''content'', PStr ''hi'')])]]\<rparr>), d)),
       time_before = 0,
       time_after = 1,
       get_modified_files = (\<lambda>_ _ _. Inr (PList [])),
       extract_successful_code_blocks = (\<lambda>_. Inr []),
       summarize_chat_history = (\<lambda>_ _ _. Inr (PStr ''summary'')),
       json_dumps = (\<lambda>_. Inr ''{}'') \<rparr>"

definition one_block_collaborators :: collaborators where
  "one_block_collaborators =
     plain_collaborators\<lparr>extract_successful_code_blocks := (\<lambda>_. Inr [''print(1)''])\<rparr>"

section \<open>Properties of the registry\<close>

text \<open>
  The registry is run one call at a time: a call starts with the lock free and no other
  coroutine runs while it is under way, except where a theorem says otherwise. All
  theorems below are about a manager that was given a lock; without one every
  \<^verbatim>\<open>async with\<close> raises.
\<close>

lemma disconnect_free:
  assumes "active_connections_lock m = Some False"
  shows "disconnect h m =
           (Returned (),
            m\<lparr>active_connections := filter (\<lambda>conn. fst conn \<noteq> h) (active_connections m)\<rparr>)"
  using assms by (simp add: disconnect_def with_lock_def)

lemma filter_absent:
  assumes "h \<notin> fst ` set cs"
  shows "filter (\<lambda>conn. fst conn \<noteq> h) cs = cs"
  using assms by (induction cs) auto



lemma transmit_returns_locked:
  assumes "active_connections_lock m = Some False"
    and "send_json tr h msg = None"
  shows "with_lock (transmit tr msg h) m = (Returned (), m\<lparr>frames := frames m @ [(h, msg)]\<rparr>)"
  using assms by (cases m) (simp add: with_lock_def transmit_def)


lemma send_message_delivers:
  assumes "active_connections_lock m = Some False"
    and "send_json tr h msg = None"
  shows "send_message tr msg h m = (Returned (), m\<lparr>frames := frames m @ [(h, msg)]\<rparr>)"
  using assms by (simp add: send_message_def transmit_returns_locked)

lemma broadcast_step_disconnects:
  "broadcast_step tr message_dict h m = disconnect h m"
  by (cases "active_connections_lock m")
     (auto simp: broadcast_step_def disconnect_def with_lock_def split: bool.splits)

lemma broadcast_each_disconnects:
  "broadcast_each tr message_dict cs m = disconnect_each cs m"
  by (induction cs arbitrary: m)
     (auto simp: broadcast_step_disconnects split: prod.splits outcome.splits)

lemma disconnect_by_others_result:
  assumes "active_connections_lock m = Some False"
  shows "disconnect_by_others hs m =
           m\<lparr>active_connections := filter (\<lambda>conn. fst conn \<notin> set hs) (active_connections m)\<rparr>"
  using assms
proof (induction hs arbitrary: m)
  case Nil
  then show ?case by (simp add: disconnect_by_others_def)
next
  case (Cons h hs)
  let ?m1 = "m\<lparr>active_connections := filter (\<lambda>conn. fst conn \<noteq> h) (active_connections m)\<rparr>"
  have "disconnect_by_others (h # hs) m = disconnect_by_others hs ?m1"
    using Cons.prems by (simp add: disconnect_by_others_def disconnect_free)
  also have "\<dots> = ?m1\<lparr>active_connections :=
      filter (\<lambda>conn. fst conn \<notin> set hs) (active_connections ?m1)\<rparr>"
    using Cons.prems by (intro Cons.IH) simp
  also have "\<dots> = m\<lparr>active_connections :=
      filter (\<lambda>conn. fst conn \<notin> set (h # hs)) (active_connections m)\<rparr>"
    by (auto intro!: filter_cong)
  finally show ?case .
qed

lemma disconnect_each_among_result:
  assumes "active_connections_lock m = Some False"
    and "fst ` set (active_connections m) \<subseteq> fst ` set cs"
  shows "disconnect_each_among others cs m = (Returned (), m\<lparr>active_connections := []\<rparr>)"
  using assms
proof (induction cs arbitrary: m others)
  case Nil
  then show ?case by simp
next
  case (Cons c cs)
  obtain h cid where c: "c = (h, cid)" by (cases c)
  let ?hs = "case others of [] \<Rightarrow> [] | hs # _ \<Rightarrow> hs"
  let ?m1 = "m\<lparr>active_connections := filter (\<lambda>conn. fst conn \<notin> set ?hs) (active_connections m)\<rparr>"
  let ?m2 = "?m1\<lparr>active_connections := filter (\<lambda>conn. fst conn \<noteq> h) (active_connections ?m1)\<rparr>"
  have m1: "disconnect_by_others ?hs m = ?m1"
    using Cons.prems(1) by (rule disconnect_by_others_result)
  have "active_connections_lock ?m1 = Some False"
    using Cons.prems(1) by simp
  then have m2: "disconnect h ?m1 = (Returned (), ?m2)"
    by (rule disconnect_free)
  have lk: "active_connections_lock ?m2 = Some False"
    using Cons.prems(1) by simp
  have sub: "fst ` set (active_connections ?m2) \<subseteq> fst ` set cs"
    using Cons.prems(2) c by auto
  have "disconnect_each_among (tl others) cs ?m2 = (Returned (), ?m2\<lparr>active_connections := []\<rparr>)"
    using lk sub by (rule Cons.IH)
  then show ?case
    using m1 m2 c by simp
qed

lemma disconnect_each_among_none: "disconnect_each_among [] cs m = disconnect_each cs m"
  by (induction cs arbitrary: m)
     (auto simp: disconnect_by_others_def split: prod.splits outcome.splits)

lemma connect_free:
  assumes "active_connections_lock m = Some False"
  shows "connect tr h c m =
           (case accept tr h of
              Some e \<Rightarrow> (Raised e, m)
            | None \<Rightarrow>
                (Returned (),
                 m\<lparr>active_connections := active_connections m @ [(h, c)],
                   handshakes := handshakes m @ [h]\<rparr>))"
  using assms by (cases m) (simp add: connect_def with_lock_def split: option.splits)

lemma call_keeps_invariant:
  assumes "active_connections_lock m = Some False"
    and "distinct (map fst (active_connections m))"
    and "case c of Connect h _ \<Rightarrow> h \<notin> set (map fst (active_connections m))
         | Disconnect _ \<Rightarrow> True"
  shows "fst (call tr c m) = expected_outcome tr c
         \<and> active_connections_lock (snd (call tr c m)) = Some False
         \<and> distinct (map fst (active_connections (snd (call tr c m))))"
proof (cases c)
  case (Connect h cid)
  then show ?thesis
    using assms by (simp add: connect_free split: option.splits)
next
  case (Disconnect h)
  then show ?thesis
    using assms by (simp add: disconnect_free distinct_map_filter)
qed

lemma run_calls_invariant:
  assumes "active_connections_lock m = Some False"
    and "distinct (map fst (active_connections m))"
    and "connects_fresh tr cs m"
  shows "(\<forall>(r, m') \<in> set (run_calls tr cs m). distinct (map fst (active_connections m')))
         \<and> map fst (run_calls tr cs m) = map (expected_outcome tr) cs"
  using assms
proof (induction cs arbitrary: m)
  case Nil
  then show ?case by simp
next
  case (Cons c cs)
  have fresh: "case c of Connect h _ \<Rightarrow> h \<notin> set (map fst (active_connections m))
         | Disconnect _ \<Rightarrow> True"
    using Cons.prems(3) by simp
  have step: "fst (call tr c m) = expected_outcome tr c
         \<and> active_connections_lock (snd (call tr c m)) = Some False
         \<and> distinct (map fst (active_connections (snd (call tr c m))))"
    using Cons.prems(1,2) fresh by (rule call_keeps_invariant)
  have rest: "connects_fresh tr cs (snd (call tr c m))"
    using Cons.prems(3) by simp
  have "(\<forall>(r, m') \<in> set (run_calls tr cs (snd (call tr c m))).
            distinct (map fst (active_connections m')))
        \<and> map fst (run_calls tr cs (snd (call tr c m))) = map (expected_outcome tr) cs"
    using step rest by (intro Cons.IH) simp_all
  then show ?case
    using step by (auto split: prod.splits)
qed

lemma no_lock_raises:
  assumes "active_connections_lock m = None"
  shows "disconnect h m = (Raised TypeError, m)"
    and "send_message tr msg h m = (Raised TypeError, m)"
  using assms by (simp_all add: disconnect_def send_message_def with_lock_def)

lemma broadcast_is_disconnect_all:
  "broadcast tr message m = disconnect_all m"
  by (simp add: broadcast_def disconnect_all_def broadcast_each_disconnects)

lemma broadcast_empties_registry:
  assumes "active_connections_lock m = Some False"
  shows "broadcast tr message m = (Returned (), m\<lparr>active_connections := []\<rparr>)"
proof -
  have "disconnect_each_among [] (active_connections m) m =
      (Returned (), m\<lparr>active_connections := []\<rparr>)"
    using assms by (intro disconnect_each_among_result) simp_all
  then show ?thesis
    by (simp add: broadcast_is_disconnect_all disconnect_all_def disconnect_each_among_none)
qed

text \<open>
  C1 fails on the code. The state test of \<^verbatim>\<open>broadcast\<close> never holds, so the loop
  takes the branch that disconnects for every connection: on a registry of two
  connections where nothing fails at the transport level (the set \<open>S\<close> is empty),
  no envelope is written and both connections are removed, where the claim has both
  receive \<^verbatim>\<open>{"message": payload}\<close> and the registry keep its size of two.
\<close>

theorem broadcast_drops_healthy_connections:
  "broadcast healthy_transport (PStr ''hello'')
     \<lparr> active_connections = [(1, ''a''), (2, ''b'')],
       active_connections_lock = Some False,
       handshakes = [1, 2],
       frames = [] \<rparr> =
   (Returned (),
    \<lparr> active_connections = [],
      active_connections_lock = Some False,
      handshakes = [1, 2],
      frames = [] \<rparr>)"
  by (simp add: broadcast_def broadcast_step_def disconnect_def with_lock_def
      healthy_transport_def)



text \<open>
  C3, as stated, fails: \<open>connect\<close> appends without looking, so connecting a handle
  that the registry already holds leaves two entries with that handle (both calls
  return).
\<close>

theorem reconnect_duplicates_handle:
  "map fst (run_calls lossy_transport [Connect 1 ''a'', Connect 1 ''b'']
              (init_manager None (Some False))) = [Returned (), Returned ()]
   \<and> active_connections (snd (last (run_calls lossy_transport [Connect 1 ''a'', Connect 1 ''b'']
              (init_manager None (Some False))))) = [(1, ''a''), (1, ''b'')]
   \<and> \<not> distinct (map fst (active_connections (snd (last (run_calls lossy_transport
              [Connect 1 ''a'', Connect 1 ''b''] (init_manager None (Some False)))))))"
  by (simp add: init_manager_def lossy_transport_def connect_def with_lock_def)

text \<open>
  C3, amended. From an empty registry with a free lock, run any finite sequence of
  \<open>connect\<close> and \<open>disconnect\<close> calls in which no \<open>connect\<close> names a handle that the
  registry holds at that moment (disconnects of unknown or removed handles are allowed).
  Then after every call the handles of the registry are pairwise different, every
  \<open>disconnect\<close> returns, and a \<open>connect\<close> raises only the error of its own failed
  handshake.
\<close>

theorem registry_handles_distinct:
  assumes "connects_fresh tr calls (init_manager None (Some False))"
  shows "(\<forall>(r, m) \<in> set (run_calls tr calls (init_manager None (Some False))).
            distinct (map fst (active_connections m)))
         \<and> map fst (run_calls tr calls (init_manager None (Some False))) =
             map (expected_outcome tr) calls"
  using assms by (intro run_calls_invariant) (simp_all add: init_manager_def)

theorem registry_handles_distinct_witness:
  "connects_fresh lossy_transport
     [Connect 1 ''a'', Disconnect 2, Connect 2 ''b'', Connect 9 ''z'', Disconnect 1, Disconnect 1,
      Connect 1 ''c'']
     (init_manager None (Some False))
   \<and> map fst (run_calls lossy_transport
        [Connect 1 ''a'', Disconnect 2, Connect 2 ''b'', Connect 9 ''z'', Disconnect 1, Disconnect 1,
         Connect 1 ''c'']
        (init_manager None (Some False))) =
       [Returned (), Returned (), Returned (), Raised (OtherException ''RuntimeError''),
        Returned (), Returned (), Returned ()]
   \<and> distinct (map fst (active_connections (snd (last (run_calls lossy_transport
        [Connect 1 ''a'', Disconnect 2, Connect 2 ''b'', Connect 9 ''z'', Disconnect 1, Disconnect 1,
         Connect 1 ''c'']
        (init_manager None (Some False)))))))"
proof -
  let ?cs = "[Connect 1 ''a'', Disconnect 2, Connect 2 ''b'', Connect 9 ''z'', Disconnect 1,
              Disconnect 1, Connect 1 ''c'']"
  have fresh: "connects_fresh lossy_transport ?cs (init_manager None (Some False))"
    by (simp add: init_manager_def lossy_transport_def connect_def disconnect_def with_lock_def)
  have run: "run_calls lossy_transport ?cs (init_manager None (Some False)) \<noteq> []"
    by simp
  have "last (run_calls lossy_transport ?cs (init_manager None (Some False)))
        \<in> set (run_calls lossy_transport ?cs (init_manager None (Some False)))"
    using run by (rule last_in_set)
  then show ?thesis
    using fresh registry_handles_distinct [OF fresh]
    by (auto simp: lossy_transport_def split: prod.splits)
qed

text \<open>
  C4. On a registry whose lock exists and is free, \<open>disconnect h\<close> returns without
  error and leaves exactly the entries whose handle differs from \<open>h\<close>, in their
  order, touching nothing else; when no entry has the handle the manager is unchanged;
  a second \<open>disconnect h\<close> changes nothing more.
\<close>

theorem disconnect_removes_handle:
  assumes "active_connections_lock m = Some False"
  shows "disconnect h m =
           (Returned (),
            m\<lparr>active_connections := filter (\<lambda>conn. fst conn \<noteq> h) (active_connections m)\<rparr>)
         \<and> (h \<notin> fst ` set (active_connections m) \<longrightarrow> disconnect h m = (Returned (), m))
         \<and> disconnect h (snd (disconnect h m)) = disconnect h m"
proof -
  let ?m' = "m\<lparr>active_connections := filter (\<lambda>conn. fst conn \<noteq> h) (active_connections m)\<rparr>"
  have first: "disconnect h m = (Returned (), ?m')"
    using assms by (rule disconnect_free)
  have absent: "h \<notin> fst ` set (active_connections m) \<Longrightarrow> ?m' = m"
    by (simp add: filter_absent)
  have "active_connections_lock ?m' = Some False"
    using assms by simp
  then have "disconnect h ?m' =
      (Returned (),
       ?m'\<lparr>active_connections := filter (\<lambda>conn. fst conn \<noteq> h) (active_connections ?m')\<rparr>)"
    by (rule disconnect_free)
  then have again: "disconnect h ?m' = (Returned (), ?m')"
    by simp
  show ?thesis
    using first absent again by simp
qed

theorem disconnect_removes_handle_witness:
  "active_connections_lock (init_manager (Some [(1, ''a''), (2, ''b''), (1, ''c'')]) (Some False)) = Some False
   \<and> disconnect 1 (init_manager (Some [(1, ''a''), (2, ''b''), (1, ''c'')]) (Some False)) =
       (Returned (), init_manager (Some [(2, ''b'')]) (Some False))
   \<and> 7 \<notin> fst ` set (active_connections (init_manager (Some [(1, ''a''), (2, ''b''), (1, ''c'')]) (Some False)))
   \<and> disconnect 7 (init_manager (Some [(1, ''a''), (2, ''b''), (1, ''c'')]) (Some False)) =
       (Returned (), init_manager (Some [(1, ''a''), (2, ''b''), (1, ''c'')]) (Some False))"
  using disconnect_removes_handle [of "init_manager (Some [(1, ''a''), (2, ''b''), (1, ''c'')]) (Some False)" 1]
    disconnect_removes_handle [of "init_manager (Some [(1, ''a''), (2, ''b''), (1, ''c'')]) (Some False)" 7]
  by (simp add: init_manager_def)

text \<open>
  C5. \<open>disconnect_all\<close> on a registry of any size returns without error and leaves the
  registry empty, also when other callers disconnect entries of the snapshot (or any
  other handle) between two steps of the sweep: the sweep's own \<open>disconnect\<close> of an
  entry that is already gone changes nothing.
\<close>

theorem disconnect_all_empties:
  assumes "active_connections_lock m = Some False"
  shows "disconnect_all_among others m = (Returned (), m\<lparr>active_connections := []\<rparr>)
         \<and> disconnect_all m = (Returned (), m\<lparr>active_connections := []\<rparr>)"
proof -
  have among: "disconnect_each_among os (active_connections m) m =
      (Returned (), m\<lparr>active_connections := []\<rparr>)" for os
    using assms by (intro disconnect_each_among_result) simp_all
  have "disconnect_all m = disconnect_each_among [] (active_connections m) m"
    by (simp add: disconnect_all_def disconnect_each_among_none)
  with among show ?thesis
    by (simp add: disconnect_all_among_def)
qed

theorem disconnect_all_empties_witness:
  "active_connections_lock (init_manager (Some [(1, ''a''), (2, ''b''), (3, ''c'')]) (Some False)) = Some False
   \<and> disconnect_all_among [[], [2, 3], [1]] (init_manager (Some [(1, ''a''), (2, ''b''), (3, ''c'')]) (Some False)) =
       (Returned (), init_manager None (Some False))
   \<and> disconnect_all (init_manager (Some [(1, ''a''), (2, ''b''), (3, ''c'')]) (Some False)) =
       (Returned (), init_manager None (Some False))"
  using disconnect_all_empties
    [of "init_manager (Some [(1, ''a''), (2, ''b''), (3, ''c'')]) (Some False)" "[[], [2, 3], [1]]"]
  by (simp add: init_manager_def)

section \<open>Properties of the dispatcher\<close>

text \<open>
  C6, as stated, fails: \<open>chat\<close> makes the working directory before it tests the
  workflow, so a request without a workflow raises with the directory already made.
\<close>

theorem chat_makes_directory_first:
  "chat plain_collaborators
     \<lparr> user_id = PStr ''u1'', role = ''user'', content = PStr '' hello '', meta = '''',
       session_id = ''s1'' \<rparr>
     [] PNone PNone (Some ''files'')
     \<lparr> message_queue = None, directories = [], executor_calls = [] \<rparr> =
   (Raised (ValueError ''Workflow must be specified''),
    \<lparr> message_queue = None, directories = [''files/s1/20240101_00-00-00''],
      executor_calls = [] \<rparr>)"
  by (simp add: chat_def plain_collaborators_def path_join_def join2_def)

text \<open>
  C6, amended. A request without a workflow makes \<open>chat\<close> raise, and the executor is
  neither constructed nor run. When a user directory is given and the working directory
  can be made, the directory is made first and the error is
  \<^verbatim>\<open>ValueError("Workflow must be specified")\<close>.
\<close>

theorem chat_without_workflow:
  "(\<exists>e. fst (chat ext msg history PNone cid user_dir d) = Raised e)
   \<and> executor_calls (snd (chat ext msg history PNone cid user_dir d)) = executor_calls d
   \<and> (\<forall>ud. user_dir = Some ud
          \<and> makedirs ext (path_join ud [session_id msg, strftime_now ext]) = None \<longrightarrow>
        chat ext msg history PNone cid user_dir d =
          (Raised (ValueError ''Workflow must be specified''),
           d\<lparr>directories :=
                directories d @ [path_join ud [session_id msg, strftime_now ext]]\<rparr>))"
  by (auto simp: chat_def Let_def split: option.splits)

theorem chat_without_workflow_witness:
  "makedirs plain_collaborators (path_join ''files'' [''s1'', strftime_now plain_collaborators]) = None
   \<and> chat plain_collaborators
       \<lparr> user_id = PStr ''u1'', role = ''user'', content = PStr '' hello '', meta = '''',
         session_id = ''s1'' \<rparr>
       [] PNone PNone (Some ''files'')
       \<lparr> message_queue = None, directories = [], executor_calls = [] \<rparr> =
     (Raised (ValueError ''Workflow must be specified''),
      \<lparr> message_queue = None, directories = [''files/s1/20240101_00-00-00''],
        executor_calls = [] \<rparr>)
   \<and> chat plain_collaborators
       \<lparr> user_id = PStr ''u1'', role = ''user'', content = PStr '' hello '', meta = '''',
         session_id = ''s1'' \<rparr>
       [] PNone PNone None
       \<lparr> message_queue = None, directories = [], executor_calls = [] \<rparr> =
     (Raised TypeError, \<lparr> message_queue = None, directories = [], executor_calls = [] \<rparr>)"
  using chat_without_workflow
      [of plain_collaborators
          "\<lparr> user_id = PStr ''u1'', role = ''user'', content = PStr '' hello '', meta = '''',
             session_id = ''s1'' \<rparr>"
          "[]" PNone "Some ''files''"
          "\<lparr> message_queue = None, directories = [], executor_calls = [] \<rparr>"]
  by (simp add: chat_def plain_collaborators_def path_join_def join2_def)

text \<open>
  C7. Under the summary method \<^verbatim>\<open>"last"\<close>, with a trace of two entries whose contents
  are \<^verbatim>\<open>"A"\<close> and \<^verbatim>\<open>"B"\<close>: when the extractor finds the one block
  \<^verbatim>\<open>"print(1)"\<close> the output is \<^verbatim>\<open>"B"\<close>, a newline and \<^verbatim>\<open>"print(1)"\<close>; when it
  finds none the output is \<^verbatim>\<open>"B"\<close>.
\<close>

theorem generate_output_last:
  assumes "summary_method wfl = PStr ''last''"
    and "agent_history wm = [first_entry, last_entry]"
    and "entry_content first_entry = Inr (PStr ''A'')"
    and "entry_content last_entry = Inr (PStr ''B'')"
  shows "(extract_successful_code_blocks ext (agent_history wm) = Inr [''print(1)''] \<longrightarrow>
            generate_output ext message_text wm wfl d =
              (Returned (PStr (''B'' @ [CHR 0x0A] @ ''print(1)'')), d))
         \<and> (extract_successful_code_blocks ext (agent_history wm) = Inr [] \<longrightarrow>
            generate_output ext message_text wm wfl d = (Returned (PStr ''B''), d))"
  using assms by (simp add: generate_output_def)

theorem generate_output_last_witness:
  "generate_output one_block_collaborators ''task''
     \<lparr> agent_history = [PDict [(''message'', PDict [(''content'', PStr ''A'')])],
                         PDict [(''message'', PDict [(''content'', PStr ''B'')])]],
       receiver_client = PNone, connection_id = PNone \<rparr>
     \<lparr> summary_method = PStr ''last'' \<rparr>
     \<lparr> message_queue = None, directories = [], executor_calls = [] \<rparr> =
     (Returned (PStr (''B'' @ [CHR 0x0A] @ ''print(1)'')),
      \<lparr> message_queue = None, directories = [], executor_calls = [] \<rparr>)
   \<and> generate_output plain_collaborators ''task''
     \<lparr> agent_history = [PDict [(''message'', PDict [(''content'', PStr ''A'')])],
                         PDict [(''message'', PDict [(''content'', PStr ''B'')])]],
       receiver_client = PNone, connection_id = PNone \<rparr>
     \<lparr> summary_method = PStr ''last'' \<rparr>
     \<lparr> message_queue = None, directories = [], executor_calls = [] \<rparr> =
     (Returned (PStr ''B''), \<lparr> message_queue = None, directories = [], executor_calls = [] \<rparr>)"
  using generate_output_last
      [of "\<lparr> summary_method = PStr ''last'' \<rparr>"
          "\<lparr> agent_history = [PDict [(''message'', PDict [(''content'', PStr ''A'')])],
                         PDict [(''message'', PDict [(''content'', PStr ''B'')])]],
             receiver_client = PNone, connection_id = PNone \<rparr>"
          "PDict [(''message'', PDict [(''content'', PStr ''A'')])]"
          "PDict [(''message'', PDict [(''content'', PStr ''B'')])]"
          one_block_collaborators "''task''"
          "\<lparr> message_queue = None, directories = [], executor_calls = [] \<rparr>"]
    generate_output_last
      [of "\<lparr> summary_method = PStr ''last'' \<rparr>"
          "\<lparr> agent_history = [PDict [(''message'', PDict [(''content'', PStr ''A'')])],
                         PDict [(''message'', PDict [(''content'', PStr ''B'')])]],
             receiver_client = PNone, connection_id = PNone \<rparr>"
          "PDict [(''message'', PDict [(''content'', PStr ''A'')])]"
          "PDict [(''message'', PDict [(''content'', PStr ''B'')])]"
          plain_collaborators "''task''"
          "\<lparr> message_queue = None, directories = [], executor_calls = [] \<rparr>"]
  by (simp add: entry_content_def one_block_collaborators_def plain_collaborators_def)

text \<open>
  C8. For a summary method that is none of \<^verbatim>\<open>"last"\<close>, \<^verbatim>\<open>"llm"\<close> and
  \<^verbatim>\<open>"none"\<close>, whatever the trace, the output is the empty string and nothing else
  happens.
\<close>

theorem generate_output_unknown_method:
  assumes "summary_method wfl \<noteq> PStr ''last''"
    and "summary_method wfl \<noteq> PStr ''llm''"
    and "summary_method wfl \<noteq> PStr ''none''"
  shows "generate_output ext message_text wm wfl d = (Returned (PStr ''''), d)"
  using assms by (simp add: generate_output_def)

theorem generate_output_unknown_method_witness:
  "PStr ''first'' \<noteq> PStr ''last'' \<and> PStr ''first'' \<noteq> PStr ''llm'' \<and> PStr ''first'' \<noteq> PStr ''none''
   \<and> generate_output one_block_collaborators ''task''
        \<lparr> agent_history = [PDict [(''message'', PDict [(''content'', PStr ''A'')])]],
          receiver_client = PNone, connection_id = PNone \<rparr>
        \<lparr> summary_method = PStr ''first'' \<rparr>
        \<lparr> message_queue = None, directories = [], executor_calls = [] \<rparr> =
       (Returned (PStr ''''), \<lparr> message_queue = None, directories = [], executor_calls = [] \<rparr>)
   \<and> generate_output one_block_collaborators ''task''
        \<lparr> agent_history = [], receiver_client = PNone, connection_id = PNone \<rparr>
        \<lparr> summary_method = PNone \<rparr>
        \<lparr> message_queue = None, directories = [], executor_calls = [] \<rparr> =
       (Returned (PStr ''''), \<lparr> message_queue = None, directories = [], executor_calls = [] \<rparr>)"
  using generate_output_unknown_method
      [of "\<lparr> summary_method = PStr ''first'' \<rparr>" one_block_collaborators "''task''"
          "\<lparr> agent_history = [PDict [(''message'', PDict [(''content'', PStr ''A'')])]],
             receiver_client = PNone, connection_id = PNone \<rparr>"
          "\<lparr> message_queue = None, directories = [], executor_calls = [] \<rparr>"]
    generate_output_unknown_method
      [of "\<lparr> summary_method = PNone \<rparr>" one_block_collaborators "''task''"
          "\<lparr> agent_history = [], receiver_client = PNone, connection_id = PNone \<rparr>"
          "\<lparr> message_queue = None, directories = [], executor_calls = [] \<rparr>"]
  by simp

text \<open>
  C10, as stated, fails: on a bounded queue that is full, \<^verbatim>\<open>put_nowait\<close> raises
  \<^verbatim>\<open>queue.Full\<close> and \<open>send\<close> lets it through.
\<close>

theorem send_on_full_queue_raises:
  "send (PStr ''second'')
     \<lparr> message_queue = Some \<lparr> maxsize = 1, items = [PStr ''first''] \<rparr>,
       directories = [], executor_calls = [] \<rparr> =
   (Raised QueueFull,
    \<lparr> message_queue = Some \<lparr> maxsize = 1, items = [PStr ''first''] \<rparr>,
      directories = [], executor_calls = [] \<rparr>)"
  by (simp add: send_def put_nowait_def)

text \<open>
  C10, amended. \<open>send\<close> never waits. Without a queue it returns and does nothing.
  With a queue that is unbounded or has a free slot it appends exactly the message and
  returns. With a bounded queue that is full it raises \<^verbatim>\<open>queue.Full\<close> and leaves the
  queue as it was.
\<close>

theorem send_enqueues_or_full:
  "fst (send message d) \<noteq> Suspended
   \<and> (message_queue d = None \<longrightarrow> send message d = (Returned (), d))
   \<and> (\<forall>q. message_queue d = Some q \<longrightarrow>
         (if 0 < maxsize q \<and> maxsize q \<le> int (length (items q))
          then send message d = (Raised QueueFull, d)
          else send message d =
                 (Returned (), d\<lparr>message_queue := Some (q\<lparr>items := items q @ [message]\<rparr>)\<rparr>)))"
  by (auto simp: send_def put_nowait_def split: option.splits)

theorem send_enqueues_or_full_witness:
  "send (PStr ''n'') \<lparr> message_queue = None, directories = [], executor_calls = [] \<rparr> =
     (Returned (), \<lparr> message_queue = None, directories = [], executor_calls = [] \<rparr>)
   \<and> send (PStr ''n'')
       \<lparr> message_queue = Some \<lparr> maxsize = 0, items = [PStr ''first''] \<rparr>,
         directories = [], executor_calls = [] \<rparr> =
     (Returned (),
      \<lparr> message_queue = Some \<lparr> maxsize = 0, items = [PStr ''first'', PStr ''n''] \<rparr>,
        directories = [], executor_calls = [] \<rparr>)
   \<and> send (PStr ''n'')
       \<lparr> message_queue = Some \<lparr> maxsize = 2, items = [PStr ''first'', PStr ''second''] \<rparr>,
         directories = [], executor_calls = [] \<rparr> =
     (Raised QueueFull,
      \<lparr> message_queue = Some \<lparr> maxsize = 2, items = [PStr ''first'', PStr ''second''] \<rparr>,
        directories = [], executor_calls = [] \<rparr>)"
  using send_enqueues_or_full
      [of "PStr ''n''" "\<lparr> message_queue = None, directories = [], executor_calls = [] \<rparr>"]
    send_enqueues_or_full
      [of "PStr ''n''" "\<lparr> message_queue = Some \<lparr> maxsize = 0, items = [PStr ''first''] \<rparr>,
         directories = [], executor_calls = [] \<rparr>"]
    send_enqueues_or_full
      [of "PStr ''n''" "\<lparr> message_queue = Some \<lparr> maxsize = 2, items = [PStr ''first'', PStr ''second''] \<rparr>,
         directories = [], executor_calls = [] \<rparr>"]
  by simp

end
